theory Spec2Isabelle
  imports Main "HOL-Library.Multiset"
begin

section \<open>The complaint service of \<open>src/index.js\<close>\<close>

text \<open>
  The program is an Express application with four routes over one Mongoose model,
  \<open>Complaint\<close>.  Each route handler is embedded as a function from the persisted
  collection and the request to the new collection and the HTTP response.

  Conventions of the embedding:
  \<^item> The collection is the list of its documents in insertion order.
  \<^item> A field of a JSON request body is either absent (\<open>None\<close>) or carries a value of the
    type the schema declares for it (\<open>Some\<close>); JSON values of another type, and \<open>null\<close>,
    are outside the model.  JavaScript truthiness of such a field is therefore
    "present and not the empty string".
  \<^item> A string is a list of characters; a character stands for a code point below 256.
  \<^item> A date is its number of milliseconds since the epoch.  \<open>Date.now\<close> / \<open>new Date()\<close>
    and the generated \<open>_id\<close> are inputs of the handlers.
  \<^item> What Mongoose and MongoDB do (defaults, validators, the unique index, casting of
    the id parameter, sorting) is written out as functions named after their methods.
    An exception they throw is the \<open>Inl\<close> of a sum, caught by the handler as in the source.
\<close>

subsection \<open>Documents\<close>

type_synonym timestamp = int
type_synonym objectId = string

text \<open>\<open>StatusHistorySchema\<close>: \<open>{status, time}\<close>, no \<open>_id\<close>.\<close>

record statusEntry =
  hstatus :: string
  htime :: timestamp

text \<open>\<open>ComplaintSchema\<close>.  The required paths are optional in a document that has not
  been validated yet; \<open>cid\<close> is the document's \<open>_id\<close>.\<close>

record complaint =
  cid :: objectId
  trackId :: "string option"
  description :: "string option"
  category :: "string option"
  status :: string
  createdAt :: timestamp
  evidence :: "string option"
  comments :: "string list"
  statusHistory :: "statusEntry list"

type_synonym store = "complaint list"

subsection \<open>Requests and responses\<close>

text \<open>An element of a \<open>statusHistory\<close> array sent in a request body, \<open>{status, time}\<close>.
  An element sent without \<open>time\<close> (its default is a clock reading of its own) is outside
  the model.\<close>

record historyReq =
  hstatus_in :: string
  htime_in :: timestamp

text \<open>The body of \<open>POST /api/complaints\<close>: it is handed whole to the model's constructor,
  so every path of the schema can be set by the caller.\<close>

record createReq =
  trackId_in :: "string option"
  description_in :: "string option"
  category_in :: "string option"
  evidence_in :: "string option"
  status_in :: "string option"
  createdAt_in :: "timestamp option"
  comments_in :: "string list option"
  statusHistory_in :: "historyReq list option"

text \<open>The body of \<open>PATCH /api/complaints/:id/status\<close>: \<open>{status, comment}\<close>.\<close>

record updateReq =
  status_upd :: "string option"
  comment_upd :: "string option"

text \<open>The body of \<open>POST /api/admin/login\<close>: \<open>{email, password}\<close>.\<close>

record loginReq =
  email_in :: "string option"
  password_in :: "string option"

text \<open>Exceptions of Mongoose and of the MongoDB driver.\<close>

datatype error =
  ValidationError | DuplicateKeyError | CastError | DocumentNotFoundError | NetworkError

text \<open>The text of an error response: the message of a caught exception, or a literal.\<close>

datatype message = ErrorMessage error | Text string

text \<open>\<open>res.status(code).json(...)\<close>: \<open>Success\<close> carries \<open>success: true\<close> and the data,
  \<open>Failure\<close> carries \<open>success: false\<close> and the message.\<close>

datatype 'a response = Success nat 'a | Failure nat message

fun httpStatus :: "'a response \<Rightarrow> nat" where
  "httpStatus (Success code _) = code"
| "httpStatus (Failure code _) = code"

fun isFailure :: "'a response \<Rightarrow> bool" where
  "isFailure (Success _ _) = False"
| "isFailure (Failure _ _) = True"

text \<open>Truthiness of an optional string: \<open>undefined\<close> and \<open>""\<close> are falsy.\<close>

fun truthy :: "string option \<Rightarrow> bool" where
  "truthy None = False"
| "truthy (Some s) = (s \<noteq> [])"

subsection \<open>Mongoose: construction, validation, persistence\<close>

definition statusEnum :: "string list" where
  "statusEnum = [''Pending'', ''In Review'', ''Resolved'', ''Escalated'', ''Unnecessary'']"

text \<open>A sub-document built from a request element.\<close>

definition newStatusEntry :: "historyReq \<Rightarrow> statusEntry" where
  "newStatusEntry h = \<lparr>hstatus = hstatus_in h, htime = htime_in h\<rparr>"

text \<open>A \<open>Date\<close> holds at most 8.64e15 milliseconds either side of the epoch; a number
  beyond that is not cast to a date.  The constructor remembers a path of the body it
  could not cast, and \<open>save()\<close> then fails validation.\<close>

definition validDate :: "timestamp \<Rightarrow> bool" where
  "validDate t = (- 8640000000000000 \<le> t \<and> t \<le> 8640000000000000)"

definition castFailed :: "createReq \<Rightarrow> bool" where
  "castFailed b =
     (list_ex (\<lambda>t. \<not> validDate t)
        ((case createdAt_in b of None \<Rightarrow> [] | Some t \<Rightarrow> [t]) @
         (case statusHistory_in b of None \<Rightarrow> [] | Some hs \<Rightarrow> map htime_in hs)))"

text \<open>\<open>new Complaint(req.body)\<close>: the body's values, and the schema's defaults for the
  paths the body leaves out.\<close>

definition newComplaint :: "objectId \<Rightarrow> timestamp \<Rightarrow> createReq \<Rightarrow> complaint" where
  "newComplaint oid now b =
     \<lparr>cid = oid,
      trackId = trackId_in b,
      description = description_in b,
      category = category_in b,
      status = (case status_in b of None \<Rightarrow> ''Pending'' | Some s \<Rightarrow> s),
      createdAt = (case createdAt_in b of None \<Rightarrow> now | Some t \<Rightarrow> t),
      evidence = evidence_in b,
      comments = (case comments_in b of None \<Rightarrow> [] | Some cs \<Rightarrow> cs),
      statusHistory =
        (case statusHistory_in b of None \<Rightarrow> [] | Some hs \<Rightarrow> map newStatusEntry hs)\<rparr>"

text \<open>The \<open>required\<close> validator of a String path: present and not empty.\<close>

fun required :: "string option \<Rightarrow> bool" where
  "required None = False"
| "required (Some s) = (s \<noteq> [])"

text \<open>Document validation, run by \<open>save()\<close> on every path: the three required strings,
  the \<open>enum\<close> of \<open>status\<close>, and the required \<open>status\<close> of each history entry.\<close>

definition validate :: "complaint \<Rightarrow> bool" where
  "validate d =
     (required (trackId d) \<and> required (description d) \<and> required (category d) \<and>
      status d \<in> set statusEnum \<and>
      list_all (\<lambda>h. hstatus h \<noteq> []) (statusHistory d))"

text \<open>The unique indexes of the collection: \<open>_id\<close> and \<open>trackId\<close>.\<close>

definition duplicateKey :: "store \<Rightarrow> complaint \<Rightarrow> bool" where
  "duplicateKey st d = list_ex (\<lambda>c. cid c = cid d \<or> trackId c = trackId d) st"

text \<open>The update a \<open>save()\<close> of a loaded document sends: the first document with its
  \<open>_id\<close> takes the new values.\<close>

fun updateOne :: "store \<Rightarrow> complaint \<Rightarrow> store" where
  "updateOne [] d = []"
| "updateOne (c # cs) d = (if cid c = cid d then d # cs else c # updateOne cs d)"

text \<open>\<open>doc.save()\<close>.  \<open>isNew\<close> tells a constructed document (inserted) from a loaded one
  (updated).  Validation comes first; nothing is written when it fails.\<close>

definition save :: "store \<Rightarrow> bool \<Rightarrow> complaint \<Rightarrow> error + store" where
  "save st isNew d =
     (if \<not> validate d then Inl ValidationError
      else if isNew then
        (if duplicateKey st d then Inl DuplicateKeyError else Inr (st @ [d]))
      else
        (if list_ex (\<lambda>c. cid c = cid d) st then Inr (updateOne st d)
         else Inl DocumentNotFoundError))"

text \<open>\<open>Complaint.findById(req.params.id)\<close>.  The parameter is cast to an ObjectId first,
  and a string that cannot be cast throws.  Which strings can be cast depends on the
  version of the driver, so the cast is a parameter of the model.\<close>

definition findById ::
  "(string \<Rightarrow> objectId option) \<Rightarrow> store \<Rightarrow> string \<Rightarrow> error + complaint option" where
  "findById castId st idParam =
     (case castId idParam of
        None \<Rightarrow> Inl CastError
      | Some oid \<Rightarrow> Inr (find (\<lambda>c. cid c = oid) st))"

text \<open>One cast, for concrete evaluation: the 24 hexadecimal digits of an ObjectId,
  compared in lower case.\<close>

definition hexDigit :: "char \<Rightarrow> bool" where
  "hexDigit c = (c \<in> set ''0123456789abcdefABCDEF'')"

definition lowerHex :: "char \<Rightarrow> char" where
  "lowerHex c =
     (if c = CHR ''A'' then CHR ''a'' else if c = CHR ''B'' then CHR ''b''
      else if c = CHR ''C'' then CHR ''c'' else if c = CHR ''D'' then CHR ''d''
      else if c = CHR ''E'' then CHR ''e'' else if c = CHR ''F'' then CHR ''f'' else c)"

definition castObjectId :: "string \<Rightarrow> objectId option" where
  "castObjectId s =
     (if length s = 24 \<and> list_all hexDigit s then Some (map lowerHex s) else None)"

subsection \<open>The complaint routes\<close>

text \<open>\<open>POST /api/complaints\<close> (lines 89-104).  Lines 94-97: the first history entry, the document's own status at its own
  \<open>createdAt\<close>, pushed after whatever the body put into \<open>statusHistory\<close>.\<close>

definition pushInitialStatus :: "complaint \<Rightarrow> complaint" where
  "pushInitialStatus d =
     d\<lparr>statusHistory := statusHistory d @ [\<lparr>hstatus = status d, htime = createdAt d\<rparr>]\<rparr>"

definition createComplaint ::
  "store \<Rightarrow> createReq \<Rightarrow> objectId \<Rightarrow> timestamp \<Rightarrow> store \<times> complaint response" where
  "createComplaint st b oid now =
     (let d = pushInitialStatus (newComplaint oid now b)
      in case (if castFailed b then Inl ValidationError else save st True d) of
           Inl e \<Rightarrow> (st, Failure 400 (ErrorMessage e))
         | Inr st' \<Rightarrow> (st', Success 201 d))"



text \<open>\<open>PATCH /api/complaints/:id/status\<close> (lines 116-142).\<close>

definition pushComment :: "updateReq \<Rightarrow> complaint \<Rightarrow> complaint" where
  "pushComment b c =
     (case comment_upd b of
        None \<Rightarrow> c
      | Some s \<Rightarrow> if s \<noteq> [] then c\<lparr>comments := comments c @ [s]\<rparr> else c)"

definition setStatus :: "updateReq \<Rightarrow> timestamp \<Rightarrow> complaint \<Rightarrow> complaint" where
  "setStatus b now c =
     (case status_upd b of
        None \<Rightarrow> c
      | Some s \<Rightarrow>
          if s \<noteq> [] \<and> status c \<noteq> s
          then c\<lparr>status := s,
                 statusHistory := statusHistory c @ [\<lparr>hstatus = s, htime = now\<rparr>]\<rparr>
          else c)"

definition updateStatus ::
  "(string \<Rightarrow> objectId option) \<Rightarrow> store \<Rightarrow> string \<Rightarrow> updateReq \<Rightarrow> timestamp
     \<Rightarrow> store \<times> complaint response" where
  "updateStatus castId st idParam b now =
     (case findById castId st idParam of
        Inl e \<Rightarrow> (st, Failure 400 (ErrorMessage e))
      | Inr None \<Rightarrow> (st, Failure 404 (Text ''Complaint not found''))
      | Inr (Some c) \<Rightarrow>
          (let d = setStatus b now (pushComment b c)
           in case save st False d of
                Inl e \<Rightarrow> (st, Failure 400 (ErrorMessage e))
              | Inr st' \<Rightarrow> (st', Success 200 d)))"

subsection \<open>The login route\<close>

text \<open>The environment variables the handler reads.\<close>

record env =
  ADMIN_EMAIL :: "string option"
  ADMIN_PASSWORD :: "string option"
  JWT_SECRET :: "string option"

text \<open>\<open>process.env.X || fallback\<close>.\<close>

fun orElse :: "string option \<Rightarrow> string \<Rightarrow> string" where
  "orElse None d = d"
| "orElse (Some s) d = (if s = [] then d else s)"

text \<open>\<open>String.prototype.trim\<close>: white space and line terminators below code point 256.\<close>

definition isWhiteSpace :: "char \<Rightarrow> bool" where
  "isWhiteSpace c =
     (c \<in> set [CHR 0x09, CHR 0x0A, CHR 0x0B, CHR 0x0C, CHR 0x0D, CHR 0x20, CHR 0xA0])"

definition trim :: "string \<Rightarrow> string" where
  "trim s = rev (dropWhile isWhiteSpace (rev (dropWhile isWhiteSpace s)))"

text \<open>\<open>jwt.sign(payload, secret, options)\<close>: the token is kept as what was signed, the
  payload \<open>{email, role}\<close>, the secret and \<open>expiresIn\<close>.\<close>

record token =
  tokenEmail :: string
  tokenRole :: string
  tokenSecret :: string
  tokenExpiresIn :: string

record loginData =
  loginMessage :: string
  loginToken :: token
  loginEmail :: string

text \<open>\<open>POST /api/admin/login\<close> (lines 145-196).  The test for missing credentials comes
  before the trimming; the token is signed over the email as submitted, the response
  carries the trimmed one.  The 500 answer of the \<open>catch\<close> branch is reached only when a
  field is not a string (\<open>trim\<close> is then not a function), which the model leaves out.\<close>

definition adminLogin :: "env \<Rightarrow> loginReq \<Rightarrow> loginData response" where
  "adminLogin e b =
     (case (email_in b, password_in b) of
        (Some email, Some password) \<Rightarrow>
          if email = [] \<or> password = []
          then Failure 400 (Text ''Email and password are required'')
          else
            (let cleanEmail = trim email;
                 cleanPassword = trim password;
                 adminEmail = orElse (ADMIN_EMAIL e) ''prasad@gmail.com'';
                 adminPassword = orElse (ADMIN_PASSWORD e) ''prasad123''
             in if cleanEmail = adminEmail \<and> cleanPassword = adminPassword
                then Success 200
                  \<lparr>loginMessage = ''Login successful'',
                   loginToken =
                     \<lparr>tokenEmail = email, tokenRole = ''admin'',
                      tokenSecret = orElse (JWT_SECRET e) ''prasad123'',
                      tokenExpiresIn = ''24h''\<rparr>,
                   loginEmail = cleanEmail\<rparr>
                else Failure 401 (Text ''Invalid credentials''))
      | _ \<Rightarrow> Failure 400 (Text ''Email and password are required''))"

subsection \<open>Reachable collections\<close>

text \<open>The collections the two writing routes can produce from the empty one.\<close>

inductive reachable :: "(string \<Rightarrow> objectId option) \<Rightarrow> store \<Rightarrow> bool"
  for castId :: "string \<Rightarrow> objectId option" where
  empty: "reachable castId []"
| create: "reachable castId st \<Longrightarrow> reachable castId (fst (createComplaint st b oid now))"
| update: "reachable castId st \<Longrightarrow> reachable castId (fst (updateStatus castId st idParam b now))"

subsection \<open>Sequences of status updates\<close>

text \<open>A run of \<open>PATCH\<close> requests on one id parameter, each with its body and its clock,
  and the number of requests of the run that left the stored status different from what
  it was before the request.\<close>

definition currentStatus ::
  "(string \<Rightarrow> objectId option) \<Rightarrow> store \<Rightarrow> string \<Rightarrow> string option" where
  "currentStatus castId st idParam =
     (case findById castId st idParam of
        Inl e \<Rightarrow> None
      | Inr None \<Rightarrow> None
      | Inr (Some c) \<Rightarrow> Some (status c))"

fun updateAll ::
  "(string \<Rightarrow> objectId option) \<Rightarrow> store \<Rightarrow> string \<Rightarrow> (updateReq \<times> timestamp) list \<Rightarrow> store" where
  "updateAll castId st idParam [] = st"
| "updateAll castId st idParam ((b, now) # calls) =
     updateAll castId (fst (updateStatus castId st idParam b now)) idParam calls"

fun statusChanges ::
  "(string \<Rightarrow> objectId option) \<Rightarrow> store \<Rightarrow> string \<Rightarrow> (updateReq \<times> timestamp) list \<Rightarrow> nat" where
  "statusChanges castId st idParam [] = 0"
| "statusChanges castId st idParam ((b, now) # calls) =
     (if currentStatus castId (fst (updateStatus castId st idParam b now)) idParam
           = currentStatus castId st idParam
      then 0 else 1)
     + statusChanges castId (fst (updateStatus castId st idParam b now)) idParam calls"

subsection \<open>Example values\<close>

text \<open>The request of the specification's scenario, two object ids, and the document the
  scenario's request creates.\<close>

definition leakReq :: createReq where
  "leakReq =
     \<lparr>trackId_in = Some ''T1'', description_in = Some ''leak'', category_in = Some ''water'',
      evidence_in = None, status_in = None, createdAt_in = None, comments_in = None,
      statusHistory_in = None\<rparr>"

definition idA :: string where
  "idA = ''65a000000000000000000001''"

definition idB :: string where
  "idB = ''65a000000000000000000002''"

definition leakDoc :: "objectId \<Rightarrow> timestamp \<Rightarrow> complaint" where
  "leakDoc oid now =
     \<lparr>cid = oid, trackId = Some ''T1'', description = Some ''leak'', category = Some ''water'',
      status = ''Pending'', createdAt = now, evidence = None, comments = [],
      statusHistory = [\<lparr>hstatus = ''Pending'', htime = now\<rparr>]\<rparr>"




text \<open>The calls of the specification's update scenarios, and the documents they and other
  updates lead to.\<close>

definition scenarioCalls :: "(updateReq \<times> timestamp) list" where
  "scenarioCalls =
     [(\<lparr>status_upd = Some ''Resolved'', comment_upd = None\<rparr>, 2),
      (\<lparr>status_upd = Some ''Resolved'', comment_upd = None\<rparr>, 3),
      (\<lparr>status_upd = None, comment_upd = Some ''checked''\<rparr>, 4)]"

definition leakResolved :: "string list \<Rightarrow> complaint" where
  "leakResolved cs =
     \<lparr>cid = idA, trackId = Some ''T1'', description = Some ''leak'', category = Some ''water'',
      status = ''Resolved'', createdAt = 1, evidence = None, comments = cs,
      statusHistory = [\<lparr>hstatus = ''Pending'', htime = 1\<rparr>, \<lparr>hstatus = ''Resolved'', htime = 2\<rparr>]\<rparr>"

definition leakTwice :: "string \<Rightarrow> statusEntry list \<Rightarrow> complaint" where
  "leakTwice s hs =
     \<lparr>cid = idA, trackId = Some ''T1'', description = Some ''leak'', category = Some ''water'',
      status = s, createdAt = 1, evidence = None, comments = [],
      statusHistory = [\<lparr>hstatus = ''Pending'', htime = 0\<rparr>, \<lparr>hstatus = ''Pending'', htime = 1\<rparr>] @ hs\<rparr>"

definition leakReviewed :: complaint where
  "leakReviewed =
     \<lparr>cid = idA, trackId = Some ''T1'', description = Some ''leak'', category = Some ''water'',
      status = ''In Review'', createdAt = 1, evidence = None, comments = [],
      statusHistory = [\<lparr>hstatus = ''Pending'', htime = 1\<rparr>, \<lparr>hstatus = ''In Review'', htime = 2\<rparr>]\<rparr>"

text \<open>The five status values as the specification writes them.\<close>

definition specStatuses :: "string list" where
  "specStatuses = [''Pending'', ''InReview'', ''Resolved'', ''Escalated'', ''Unnecessary'']"

section \<open>Properties\<close>

subsection \<open>Auxiliary facts\<close>

lemma find_updateOne:
  "find (\<lambda>c. cid c = cid d) st = Some c \<Longrightarrow> find (\<lambda>c. cid c = cid d) (updateOne st d) = Some d"
  by (induction st) (auto split: if_splits)

lemma find_Some_ex: "find P st = Some c \<Longrightarrow> list_ex P st"
  by (induction st) (auto split: if_splits)

lemma find_Some_cid: "find (\<lambda>c. cid c = oid) st = Some c \<Longrightarrow> cid c = oid"
  by (induction st) (auto split: if_splits)

lemma find_Some_mem: "find P st = Some c \<Longrightarrow> c \<in> set st"
  by (induction st) (auto split: if_splits)

lemma cid_pushComment [simp]: "cid (pushComment b c) = cid c"
  by (simp add: pushComment_def split: option.splits)

lemma cid_setStatus [simp]: "cid (setStatus b now c) = cid c"
  by (simp add: setStatus_def split: option.splits)

lemma createComplaint_eq:
  "createComplaint st b oid now =
     (if castFailed b \<or> \<not> validate (pushInitialStatus (newComplaint oid now b))
      then (st, Failure 400 (ErrorMessage ValidationError))
      else if duplicateKey st (pushInitialStatus (newComplaint oid now b))
      then (st, Failure 400 (ErrorMessage DuplicateKeyError))
      else (st @ [pushInitialStatus (newComplaint oid now b)],
            Success 201 (pushInitialStatus (newComplaint oid now b))))"
  by (simp add: createComplaint_def save_def Let_def)

lemma castFailed_defaults:
  "createdAt_in b = None \<Longrightarrow> statusHistory_in b = None \<Longrightarrow> \<not> castFailed b"
  by (simp add: castFailed_def)

lemma castFailed_leakReq [simp]: "\<not> castFailed leakReq"
  by (simp add: castFailed_def leakReq_def)

lemma validate_new_required:
  "validate (pushInitialStatus (newComplaint oid now b)) \<Longrightarrow>
     required (trackId_in b) \<and> required (description_in b) \<and> required (category_in b)"
  by (simp add: validate_def pushInitialStatus_def newComplaint_def)

lemma duplicateKey_trackId:
  "list_ex (\<lambda>c. trackId c = trackId_in b) st \<Longrightarrow>
     duplicateKey st (pushInitialStatus (newComplaint oid now b))"
  by (auto simp: duplicateKey_def pushInitialStatus_def newComplaint_def list_ex_iff)

lemma duplicateKey_snoc:
  "trackId d = trackId_in b \<Longrightarrow>
     duplicateKey (st @ [d]) (pushInitialStatus (newComplaint oid now b))"
  by (auto simp: duplicateKey_def pushInitialStatus_def newComplaint_def list_ex_iff)

lemma trackId_new [simp]: "trackId (pushInitialStatus (newComplaint oid now b)) = trackId_in b"
  by (simp add: pushInitialStatus_def newComplaint_def)

lemma cast_idA: "castObjectId idA = Some idA"
  by (simp add: castObjectId_def idA_def hexDigit_def lowerHex_def)

lemma cast_idB: "castObjectId idB = Some idB"
  by (simp add: castObjectId_def idB_def hexDigit_def lowerHex_def)

lemma idA_neq_idB: "idA \<noteq> idB"
  by (simp add: idA_def idB_def)

lemma validate_leakDoc: "validate (leakDoc oid now)"
  by (simp add: validate_def leakDoc_def statusEnum_def)

lemma new_leakReq: "pushInitialStatus (newComplaint oid now leakReq) = leakDoc oid now"
  by (simp add: pushInitialStatus_def newComplaint_def leakReq_def leakDoc_def)

lemma create_leak: "createComplaint [] leakReq oid now = ([leakDoc oid now], Success 201 (leakDoc oid now))"
  by (simp add: createComplaint_eq new_leakReq validate_leakDoc duplicateKey_def)


lemma cid_leakDoc [simp]: "cid (leakDoc oid now) = oid"
  by (simp add: leakDoc_def)

lemma find_leak: "find (\<lambda>c. cid c = oid) [leakDoc oid now] = Some (leakDoc oid now)"
  by (simp add: leakDoc_def)

lemma updateStatus_found:
  assumes "castId idParam = Some oid" and "find (\<lambda>c. cid c = oid) st = Some c"
  shows "updateStatus castId st idParam u now =
     (if validate (setStatus u now (pushComment u c))
      then (updateOne st (setStatus u now (pushComment u c)),
            Success 200 (setStatus u now (pushComment u c)))
      else (st, Failure 400 (ErrorMessage ValidationError)))"
proof -
  have "cid c = oid" using assms(2) by (rule find_Some_cid)
  moreover have "list_ex (\<lambda>c. cid c = oid) st" using assms(2) by (rule find_Some_ex)
  ultimately show ?thesis
    using assms by (simp add: updateStatus_def findById_def save_def Let_def)
qed

lemma updateStatus_not_found:
  "castId idParam = Some oid \<Longrightarrow> find (\<lambda>c. cid c = oid) st = None \<Longrightarrow>
     updateStatus castId st idParam u now = (st, Failure 404 (Text ''Complaint not found''))"
  by (simp add: updateStatus_def findById_def)

lemma updateStatus_cast_error:
  "castId idParam = None \<Longrightarrow>
     updateStatus castId st idParam u now = (st, Failure 400 (ErrorMessage CastError))"
  by (simp add: updateStatus_def findById_def)

lemma validate_pushComment [simp]: "validate (pushComment u c) = validate c"
  by (simp add: pushComment_def validate_def split: option.splits)

lemma validate_setStatus:
  "validate c \<Longrightarrow>
     validate (setStatus u now c) =
       (case status_upd u of None \<Rightarrow> True | Some s \<Rightarrow> s = [] \<or> s \<in> set statusEnum)"
  by (auto simp: setStatus_def validate_def split: option.splits)

lemma invalid_setStatus:
  "status_upd u = Some s \<Longrightarrow> s \<noteq> [] \<Longrightarrow> s \<notin> set statusEnum \<Longrightarrow>
     \<not> validate (setStatus u now c)"
  by (auto simp: setStatus_def validate_def)

lemma updateStatus_failure_keeps:
  "isFailure (snd (updateStatus castId st idParam u now)) \<Longrightarrow>
     fst (updateStatus castId st idParam u now) = st"
  by (auto simp: updateStatus_def Let_def split: sum.splits option.splits)

lemma createComplaint_failure_keeps:
  "isFailure (snd (createComplaint st b oid now)) \<Longrightarrow>
     fst (createComplaint st b oid now) = st"
  by (auto simp: createComplaint_eq split: if_splits)

lemma list_all_updateOne:
  "list_all P st \<Longrightarrow> P d \<Longrightarrow> list_all P (updateOne st d)"
  by (induction st) auto

lemma updateStatus_valid:
  "list_all validate st \<Longrightarrow> list_all validate (fst (updateStatus castId st idParam u now))"
  by (auto simp: updateStatus_def save_def Let_def list_all_updateOne
      split: sum.splits option.splits if_splits)

lemma createComplaint_valid:
  "list_all validate st \<Longrightarrow> list_all validate (fst (createComplaint st b oid now))"
  by (simp add: createComplaint_eq)

lemma reachable_valid: "reachable castId st \<Longrightarrow> list_all validate st"
  by (induction rule: reachable.induct) (simp_all add: updateStatus_valid createComplaint_valid)

lemma valid_status: "list_all validate st \<Longrightarrow> list_all (\<lambda>c. status c \<in> set statusEnum) st"
  by (induction st) (auto simp: validate_def)

lemma invalid_new_status:
  "status_in b = Some s \<Longrightarrow> s \<notin> set statusEnum \<Longrightarrow>
     \<not> validate (pushInitialStatus (newComplaint oid now b))"
  by (simp add: validate_def pushInitialStatus_def newComplaint_def)

lemma reachable_leak: "reachable castId [leakDoc oid now]"
  using reachable.create [OF reachable.empty, of castId leakReq oid now]
  by (simp add: create_leak)

lemma status_pushComment [simp]: "status (pushComment u c) = status c"
  by (simp add: pushComment_def split: option.splits)

lemma statusHistory_pushComment [simp]: "statusHistory (pushComment u c) = statusHistory c"
  by (simp add: pushComment_def split: option.splits)

lemma setStatus_changed:
  "status_upd u = Some s \<Longrightarrow> s \<noteq> [] \<Longrightarrow> s \<noteq> status c \<Longrightarrow>
     status (setStatus u now c) = s \<and>
     statusHistory (setStatus u now c) = statusHistory c @ [\<lparr>hstatus = s, htime = now\<rparr>]"
  by (simp add: setStatus_def)

lemma setStatus_history:
  "length (statusHistory (setStatus u now c)) =
     length (statusHistory c) + (if status (setStatus u now c) = status c then 0 else 1)"
  by (auto simp: setStatus_def split: option.splits)

lemma updateStatus_step:
  assumes c: "castId idParam = Some oid" and f: "find (\<lambda>c. cid c = oid) st = Some c"
  shows "\<exists>c'. find (\<lambda>c. cid c = oid) (fst (updateStatus castId st idParam u now)) = Some c' \<and>
           length (statusHistory c') =
             length (statusHistory c) + (if status c' = status c then 0 else 1)"
proof (cases "validate (setStatus u now (pushComment u c))")
  case True
  let ?d = "setStatus u now (pushComment u c)"
  have o: "cid ?d = oid" using find_Some_cid [OF f] by simp
  have "find (\<lambda>c. cid c = oid) (updateOne st ?d) = Some ?d"
    using find_updateOne [of ?d st c] f o by simp
  moreover have "length (statusHistory ?d) =
      length (statusHistory c) + (if status ?d = status c then 0 else 1)"
    using setStatus_history [of u now "pushComment u c"] by simp
  ultimately show ?thesis
    using True c f by (simp add: updateStatus_found [where oid = oid and c = c])
next
  case False
  then show ?thesis using c f by (simp add: updateStatus_found [where oid = oid and c = c])
qed

lemma updateAll_history:
  "castId idParam = Some oid \<Longrightarrow> find (\<lambda>c. cid c = oid) st = Some c \<Longrightarrow>
     \<exists>c'. find (\<lambda>c. cid c = oid) (updateAll castId st idParam calls) = Some c' \<and>
       length (statusHistory c') =
         length (statusHistory c) + statusChanges castId st idParam calls"
proof (induction calls arbitrary: st c)
  case Nil
  then show ?case by simp
next
  case (Cons call calls)
  obtain u now where call: "call = (u, now)" by (cases call)
  let ?st = "fst (updateStatus castId st idParam u now)"
  from updateStatus_step [where castId = castId and idParam = idParam and oid = oid
      and st = st and c = c and u = u and now = now, OF Cons.prems]
  obtain c1 where f1: "find (\<lambda>c. cid c = oid) ?st = Some c1"
    and l1: "length (statusHistory c1) =
      length (statusHistory c) + (if status c1 = status c then 0 else 1)"
    by blast
  from Cons.IH [where st = ?st and c = c1, OF Cons.prems(1) f1]
  obtain c' where f': "find (\<lambda>c. cid c = oid) (updateAll castId ?st idParam calls) = Some c'"
    and l': "length (statusHistory c') =
      length (statusHistory c1) + statusChanges castId ?st idParam calls"
    by blast
  have "currentStatus castId ?st idParam = Some (status c1)"
    using Cons.prems(1) f1 by (simp add: currentStatus_def findById_def)
  moreover have "currentStatus castId st idParam = Some (status c)"
    using Cons.prems by (simp add: currentStatus_def findById_def)
  ultimately show ?case
    using f' l' l1 by (simp add: call)
qed

lemma find_snoc_new:
  "\<not> list_ex (\<lambda>c. cid c = cid d) st \<Longrightarrow> find (\<lambda>c. cid c = cid d) (st @ [d]) = Some d"
  by (induction st) auto

lemma created_found:
  assumes "createComplaint st b oid now = (stA, Success code c)"
  shows "find (\<lambda>c. cid c = oid) stA = Some c"
proof -
  let ?d = "pushInitialStatus (newComplaint oid now b)"
  have d: "c = ?d" and s: "stA = st @ [c]" and k: "\<not> duplicateKey st ?d"
    using assms by (auto simp: createComplaint_eq split: if_splits)
  have o: "cid c = oid" by (simp add: d pushInitialStatus_def newComplaint_def)
  have "\<not> list_ex (\<lambda>x. cid x = cid c) st"
    using k by (auto simp: duplicateKey_def d list_ex_iff)
  then show ?thesis using find_snoc_new [of c st] by (simp add: s o)
qed

lemma created_history:
  assumes "createComplaint st b oid now = (stA, Success code c)"
    and "statusHistory_in b = None"
  shows "length (statusHistory c) = 1"
proof -
  have "c = pushInitialStatus (newComplaint oid now b)"
    using assms(1) by (auto simp: createComplaint_eq split: if_splits)
  then show ?thesis using assms(2) by (simp add: pushInitialStatus_def newComplaint_def)
qed

lemma leakResolved_sel [simp]:
  "cid (leakResolved cs) = idA" "status (leakResolved cs) = ''Resolved''"
  by (simp_all add: leakResolved_def)

lemma status_leakDoc [simp]: "status (leakDoc oid now) = ''Pending''"
  by (simp add: leakDoc_def)

lemma leakReq_no_history: "statusHistory_in leakReq = None"
  by (simp add: leakReq_def)

lemma update_single:
  "cid c = idA \<Longrightarrow> validate (setStatus u now (pushComment u c)) \<Longrightarrow>
     updateStatus castObjectId [c] idA u now =
       ([setStatus u now (pushComment u c)], Success 200 (setStatus u now (pushComment u c)))"
  by (simp add: updateStatus_found [where oid = idA and c = c] cast_idA)

lemma step_resolve:
  "updateStatus castObjectId [leakDoc idA 1] idA \<lparr>status_upd = Some ''Resolved'', comment_upd = None\<rparr> 2
     = ([leakResolved []], Success 200 (leakResolved []))"
proof -
  have "setStatus \<lparr>status_upd = Some ''Resolved'', comment_upd = None\<rparr> 2
      (pushComment \<lparr>status_upd = Some ''Resolved'', comment_upd = None\<rparr> (leakDoc idA 1))
      = leakResolved []"
    by (simp add: setStatus_def pushComment_def leakDoc_def leakResolved_def)
  moreover have "validate (leakResolved [])"
    by (simp add: validate_def leakResolved_def statusEnum_def)
  ultimately show ?thesis
    using update_single [where c = "leakDoc idA 1" and now = 2
        and u = "\<lparr>status_upd = Some ''Resolved'', comment_upd = None\<rparr>"]
    by simp
qed

lemma step_resolve_again:
  "updateStatus castObjectId [leakResolved []] idA \<lparr>status_upd = Some ''Resolved'', comment_upd = None\<rparr> 3
     = ([leakResolved []], Success 200 (leakResolved []))"
proof -
  have "setStatus \<lparr>status_upd = Some ''Resolved'', comment_upd = None\<rparr> 3
      (pushComment \<lparr>status_upd = Some ''Resolved'', comment_upd = None\<rparr> (leakResolved []))
      = leakResolved []"
    by (simp add: setStatus_def pushComment_def leakResolved_def)
  moreover have "validate (leakResolved [])"
    by (simp add: validate_def leakResolved_def statusEnum_def)
  moreover have "cid (leakResolved []) = idA" by (simp add: leakResolved_def)
  ultimately show ?thesis
    using update_single [where c = "leakResolved []" and now = 3
        and u = "\<lparr>status_upd = Some ''Resolved'', comment_upd = None\<rparr>"]
    by simp
qed

lemma step_comment:
  "updateStatus castObjectId [leakResolved []] idA \<lparr>status_upd = None, comment_upd = Some ''checked''\<rparr> 4
     = ([leakResolved [''checked'']], Success 200 (leakResolved [''checked'']))"
proof -
  have "setStatus \<lparr>status_upd = None, comment_upd = Some ''checked''\<rparr> 4
      (pushComment \<lparr>status_upd = None, comment_upd = Some ''checked''\<rparr> (leakResolved []))
      = leakResolved [''checked'']"
    by (simp add: setStatus_def pushComment_def leakResolved_def)
  moreover have "validate (leakResolved [''checked''])"
    by (simp add: validate_def leakResolved_def statusEnum_def)
  moreover have "cid (leakResolved []) = idA" by (simp add: leakResolved_def)
  ultimately show ?thesis
    using update_single [where c = "leakResolved []" and now = 4
        and u = "\<lparr>status_upd = None, comment_upd = Some ''checked''\<rparr>"]
    by simp
qed

lemma currentStatus_single: "cid c = idA \<Longrightarrow> currentStatus castObjectId [c] idA = Some (status c)"
  by (simp add: currentStatus_def findById_def cast_idA)

lemma scenario_run:
  "updateAll castObjectId [leakDoc idA 1] idA scenarioCalls = [leakResolved [''checked'']]"
  by (simp add: scenarioCalls_def step_resolve step_resolve_again step_comment)

lemma scenario_changes: "statusChanges castObjectId [leakDoc idA 1] idA scenarioCalls = 1"
  by (simp add: scenarioCalls_def step_resolve step_resolve_again step_comment
      currentStatus_single)

subsection \<open>Creation\<close>

text \<open>C3: Create fails with HTTP 400 whenever \<open>description\<close>, \<open>category\<close> or \<open>trackId\<close> is
  missing or empty (a validation error), and whenever a stored complaint already has the
  supplied \<open>trackId\<close>; a failed Create leaves the collection as it was.  In particular,
  after a successful Create, a second Create with the same \<open>trackId\<close> fails with 400 and
  the collection still ends with the first complaint and nothing after it.\<close>

theorem create_rejects:
  "(\<not> required (trackId_in b) \<or> \<not> required (description_in b) \<or> \<not> required (category_in b) \<longrightarrow>
      createComplaint st b oid now = (st, Failure 400 (ErrorMessage ValidationError))) \<and>
   (list_ex (\<lambda>c. trackId c = trackId_in b) st \<longrightarrow>
      fst (createComplaint st b oid now) = st \<and>
      isFailure (snd (createComplaint st b oid now)) \<and>
      httpStatus (snd (createComplaint st b oid now)) = 400) \<and>
   (createComplaint st b oid now = (stA, Success code d) \<and> trackId_in bB = trackId_in b \<longrightarrow>
      stA = st @ [d] \<and>
      fst (createComplaint stA bB oidB nowB) = stA \<and>
      isFailure (snd (createComplaint stA bB oidB nowB)) \<and>
      httpStatus (snd (createComplaint stA bB oidB nowB)) = 400)"
proof (intro conjI impI)
  assume "\<not> required (trackId_in b) \<or> \<not> required (description_in b) \<or> \<not> required (category_in b)"
  then have "\<not> validate (pushInitialStatus (newComplaint oid now b))"
    using validate_new_required by blast
  then show "createComplaint st b oid now = (st, Failure 400 (ErrorMessage ValidationError))"
    by (simp add: createComplaint_eq)
next
  assume dup: "list_ex (\<lambda>c. trackId c = trackId_in b) st"
  note d = duplicateKey_trackId [OF dup, of oid now]
  show "fst (createComplaint st b oid now) = st"
    using d by (simp add: createComplaint_eq)
  show "isFailure (snd (createComplaint st b oid now))"
    using d by (simp add: createComplaint_eq)
  show "httpStatus (snd (createComplaint st b oid now)) = 400"
    using d by (simp add: createComplaint_eq)
next
  assume a: "createComplaint st b oid now = (stA, Success code d) \<and> trackId_in bB = trackId_in b"
  then have sA: "stA = st @ [d]" and td: "trackId d = trackId_in bB"
    by (auto simp: createComplaint_eq split: if_splits)
  show "stA = st @ [d]" by (rule sA)
  note k = duplicateKey_snoc [OF td, of st oidB nowB]
  show "fst (createComplaint stA bB oidB nowB) = stA"
    using k by (simp add: createComplaint_eq sA)
  show "isFailure (snd (createComplaint stA bB oidB nowB))"
    using k by (simp add: createComplaint_eq sA)
  show "httpStatus (snd (createComplaint stA bB oidB nowB)) = 400"
    using k by (simp add: createComplaint_eq sA)
qed

theorem create_rejects_witness:
  "createComplaint [] (leakReq\<lparr>description_in := Some []\<rparr>) idA 1
     = ([], Failure 400 (ErrorMessage ValidationError)) \<and>
   createComplaint [] leakReq idA 1 = ([leakDoc idA 1], Success 201 (leakDoc idA 1)) \<and>
   fst (createComplaint [leakDoc idA 1] leakReq idB 2) = [leakDoc idA 1] \<and>
   isFailure (snd (createComplaint [leakDoc idA 1] leakReq idB 2)) \<and>
   httpStatus (snd (createComplaint [leakDoc idA 1] leakReq idB 2)) = 400"
  using create_rejects [where b = "leakReq\<lparr>description_in := Some []\<rparr>" and st = "[]"
      and oid = idA and now = 1]
    create_rejects [where b = leakReq and st = "[leakDoc idA 1]" and oid = idB and now = 2]
    create_rejects [where b = leakReq and st = "[]" and oid = idA and now = 1
      and stA = "[leakDoc idA 1]" and code = 201 and d = "leakDoc idA 1" and bB = leakReq
      and oidB = idB and nowB = 2]
  by (simp add: create_leak)

text \<open>C2: every Create call on a body made of the inputs of Create (\<open>trackId\<close>,
  \<open>description\<close>, \<open>category\<close> and the optional \<open>evidence\<close>; none of \<open>status\<close>, \<open>createdAt\<close>,
  \<open>comments\<close>, \<open>statusHistory\<close>) succeeds whenever the three required strings are present
  and not empty and no stored complaint has the new id or the \<open>trackId\<close>; and every
  successful such call answers 201 with a complaint that has status \<open>Pending\<close>,
  \<open>createdAt = now\<close>, no comments and the single history entry \<open>{Pending, createdAt}\<close>,
  stored in the same step at the end of the collection.\<close>

theorem create_defaults:
  "(required (trackId_in b) \<and> required (description_in b) \<and> required (category_in b) \<and>
    \<not> list_ex (\<lambda>c. cid c = oid \<or> trackId c = trackId_in b) st \<and>
    status_in b = None \<and> createdAt_in b = None \<and> comments_in b = None \<and>
    statusHistory_in b = None \<longrightarrow>
      createComplaint st b oid now =
        (st @ [\<lparr>cid = oid, trackId = trackId_in b, description = description_in b,
                category = category_in b, status = ''Pending'', createdAt = now,
                evidence = evidence_in b, comments = [],
                statusHistory = [\<lparr>hstatus = ''Pending'', htime = now\<rparr>]\<rparr>],
         Success 201
           \<lparr>cid = oid, trackId = trackId_in b, description = description_in b,
            category = category_in b, status = ''Pending'', createdAt = now,
            evidence = evidence_in b, comments = [],
            statusHistory = [\<lparr>hstatus = ''Pending'', htime = now\<rparr>]\<rparr>)) \<and>
   (createComplaint st b oid now = (st', Success code d) \<and>
    status_in b = None \<and> createdAt_in b = None \<and> comments_in b = None \<and>
    statusHistory_in b = None \<longrightarrow>
      code = 201 \<and> st' = st @ [d] \<and> status d = ''Pending'' \<and> createdAt d = now \<and>
      comments d = [] \<and> statusHistory d = [\<lparr>hstatus = ''Pending'', htime = now\<rparr>] \<and>
      trackId d = trackId_in b \<and> description d = description_in b \<and>
      category d = category_in b \<and> evidence d = evidence_in b \<and> cid d = oid)"
proof (intro conjI impI)
  assume a: "required (trackId_in b) \<and> required (description_in b) \<and> required (category_in b) \<and>
    \<not> list_ex (\<lambda>c. cid c = oid \<or> trackId c = trackId_in b) st \<and>
    status_in b = None \<and> createdAt_in b = None \<and> comments_in b = None \<and>
    statusHistory_in b = None"
  let ?d = "\<lparr>cid = oid, trackId = trackId_in b, description = description_in b,
                category = category_in b, status = ''Pending'', createdAt = now,
                evidence = evidence_in b, comments = [],
                statusHistory = [\<lparr>hstatus = ''Pending'', htime = now\<rparr>]\<rparr>"
  have d: "pushInitialStatus (newComplaint oid now b) = ?d"
    using a by (simp add: pushInitialStatus_def newComplaint_def)
  have v: "validate ?d"
    using a by (simp add: validate_def statusEnum_def)
  have k: "\<not> duplicateKey st ?d"
    using a by (simp add: duplicateKey_def)
  have c: "\<not> castFailed b"
    using a by (simp add: castFailed_defaults)
  show "createComplaint st b oid now = (st @ [?d], Success 201 ?d)"
    by (simp add: createComplaint_eq d v k c)
next
  assume a: "createComplaint st b oid now = (st', Success code d) \<and>
    status_in b = None \<and> createdAt_in b = None \<and> comments_in b = None \<and>
    statusHistory_in b = None"
  then have d: "d = pushInitialStatus (newComplaint oid now b)" and c: "code = 201"
    and s: "st' = st @ [d]"
    by (auto simp: createComplaint_eq split: if_splits)
  show "code = 201" by (rule c)
  show "st' = st @ [d]" by (rule s)
  show "status d = ''Pending''" using a by (simp add: d pushInitialStatus_def newComplaint_def)
  show "createdAt d = now" using a by (simp add: d pushInitialStatus_def newComplaint_def)
  show "comments d = []" using a by (simp add: d pushInitialStatus_def newComplaint_def)
  show "statusHistory d = [\<lparr>hstatus = ''Pending'', htime = now\<rparr>]"
    using a by (simp add: d pushInitialStatus_def newComplaint_def)
  show "trackId d = trackId_in b" by (simp add: d pushInitialStatus_def newComplaint_def)
  show "description d = description_in b" by (simp add: d pushInitialStatus_def newComplaint_def)
  show "category d = category_in b" by (simp add: d pushInitialStatus_def newComplaint_def)
  show "evidence d = evidence_in b" by (simp add: d pushInitialStatus_def newComplaint_def)
  show "cid d = oid" by (simp add: d pushInitialStatus_def newComplaint_def)
qed

theorem create_defaults_witness:
  "createComplaint [] leakReq idA 1705000000000 =
     ([\<lparr>cid = idA, trackId = Some ''T1'', description = Some ''leak'',
        category = Some ''water'', status = ''Pending'', createdAt = 1705000000000,
        evidence = None, comments = [],
        statusHistory = [\<lparr>hstatus = ''Pending'', htime = 1705000000000\<rparr>]\<rparr>],
      Success 201
        \<lparr>cid = idA, trackId = Some ''T1'', description = Some ''leak'',
         category = Some ''water'', status = ''Pending'', createdAt = 1705000000000,
         evidence = None, comments = [],
         statusHistory = [\<lparr>hstatus = ''Pending'', htime = 1705000000000\<rparr>]\<rparr>)"
proof -
  have h: "required (trackId_in leakReq) \<and> required (description_in leakReq) \<and>
      required (category_in leakReq) \<and>
      \<not> list_ex (\<lambda>c. cid c = idA \<or> trackId c = trackId_in leakReq) [] \<and>
      status_in leakReq = None \<and> createdAt_in leakReq = None \<and> comments_in leakReq = None \<and>
      statusHistory_in leakReq = None"
    by (simp add: leakReq_def)
  have f: "trackId_in leakReq = Some ''T1'' \<and> description_in leakReq = Some ''leak'' \<and>
      category_in leakReq = Some ''water'' \<and> evidence_in leakReq = None"
    by (simp add: leakReq_def)
  from create_defaults [where b = leakReq and st = "[]" and oid = idA
      and now = 1705000000000, THEN conjunct1, rule_format, OF h]
  show ?thesis by (simp add: f)
qed

subsection \<open>Listing\<close>




subsection \<open>Status update\<close>

text \<open>What an update does to the history.  On a reachable collection, an UpdateStatus
  call on a stored complaint appends one entry \<open>{status, now}\<close> to its \<open>statusHistory\<close>, and
  sets its status, if and only if the call supplies a status of the enumeration that
  differs from the complaint's current status; otherwise status and history stay as they
  were.  Over any run of calls the history grows by exactly the number of calls that
  changed the stored status, so its length is 1 plus that number for a complaint created
  from a body without \<open>statusHistory\<close>.\<close>

lemma history_tracks_changes:
  "(reachable castId st \<and> castId idParam = Some oid \<and> find (\<lambda>c. cid c = oid) st = Some c \<longrightarrow>
      (\<exists>c'. find (\<lambda>c. cid c = oid) (fst (updateStatus castId st idParam u now)) = Some c' \<and>
         (if (case status_upd u of None \<Rightarrow> False
              | Some s \<Rightarrow> s \<in> set statusEnum \<and> s \<noteq> status c)
          then status_upd u = Some (status c') \<and>
               statusHistory c' = statusHistory c @ [\<lparr>hstatus = status c', htime = now\<rparr>]
          else status c' = status c \<and> statusHistory c' = statusHistory c))) \<and>
   (castId idParam = Some oid \<and> find (\<lambda>c. cid c = oid) st = Some c \<longrightarrow>
      (\<exists>c'. find (\<lambda>c. cid c = oid) (updateAll castId st idParam calls) = Some c' \<and>
         length (statusHistory c') =
           length (statusHistory c) + statusChanges castId st idParam calls)) \<and>
   (createComplaint st0 b oid now0 = (st, Success code c) \<and> statusHistory_in b = None \<and>
    castId idParam = Some oid \<longrightarrow>
      (\<exists>c'. find (\<lambda>c. cid c = oid) (updateAll castId st idParam calls) = Some c' \<and>
         length (statusHistory c') = 1 + statusChanges castId st idParam calls))"
proof (intro conjI impI)
  assume a: "reachable castId st \<and> castId idParam = Some oid \<and>
    find (\<lambda>c. cid c = oid) st = Some c"
  then have c: "castId idParam = Some oid" and f: "find (\<lambda>c. cid c = oid) st = Some c"
    by simp_all
  from a have "reachable castId st" by simp
  then have "list_all validate st" by (rule reachable_valid)
  moreover have "c \<in> set st" using f by (rule find_Some_mem)
  ultimately have v: "validate c" by (simp add: list_all_iff)
  let ?d = "setStatus u now (pushComment u c)"
  let ?P = "\<lambda>c'. if (case status_upd u of None \<Rightarrow> False
              | Some s \<Rightarrow> s \<in> set statusEnum \<and> s \<noteq> status c)
          then status_upd u = Some (status c') \<and>
               statusHistory c' = statusHistory c @ [\<lparr>hstatus = status c', htime = now\<rparr>]
          else status c' = status c \<and> statusHistory c' = statusHistory c"
  have o: "cid ?d = oid" using find_Some_cid [OF f] by simp
  have fd: "find (\<lambda>c. cid c = oid) (updateOne st ?d) = Some ?d"
    using find_updateOne [of ?d st c] f o by simp
  show "\<exists>c'. find (\<lambda>c. cid c = oid) (fst (updateStatus castId st idParam u now)) = Some c' \<and> ?P c'"
  proof (cases "case status_upd u of None \<Rightarrow> True | Some s \<Rightarrow> s = [] \<or> s = status c")
    case True
    then have same: "setStatus u now (pushComment u c) = pushComment u c"
      by (auto simp: setStatus_def split: option.splits)
    have "validate ?d" using v by (simp add: same)
    then have "fst (updateStatus castId st idParam u now) = updateOne st ?d"
      using c f by (simp add: updateStatus_found [where oid = oid and c = c])
    moreover have "?P ?d"
      using True by (auto simp: same statusEnum_def split: option.splits)
    ultimately show ?thesis using fd by auto
  next
    case False
    then obtain s where s: "status_upd u = Some s" "s \<noteq> []" "s \<noteq> status c"
      by (auto split: option.splits)
    note ch = setStatus_changed [where u = u and s = s and c = "pushComment u c" and now = now,
        simplified, OF s]
    show ?thesis
    proof (cases "s \<in> set statusEnum")
      case True
      have "validate ?d"
        using v s True by (simp add: validate_setStatus)
      then have "fst (updateStatus castId st idParam u now) = updateOne st ?d"
        using c f by (simp add: updateStatus_found [where oid = oid and c = c])
      moreover have "?P ?d" using s True ch by simp
      ultimately show ?thesis using fd by auto
    next
      case False
      have "\<not> validate ?d" using s False by (simp add: invalid_setStatus)
      then have "fst (updateStatus castId st idParam u now) = st"
        using c f by (simp add: updateStatus_found [where oid = oid and c = c])
      moreover have "?P c" using s False by simp
      ultimately show ?thesis using f by auto
    qed
  qed
next
  assume "castId idParam = Some oid \<and> find (\<lambda>c. cid c = oid) st = Some c"
  then show "\<exists>c'. find (\<lambda>c. cid c = oid) (updateAll castId st idParam calls) = Some c' \<and>
         length (statusHistory c') =
           length (statusHistory c) + statusChanges castId st idParam calls"
    by (simp add: updateAll_history)
next
  assume a: "createComplaint st0 b oid now0 = (st, Success code c) \<and> statusHistory_in b = None \<and>
    castId idParam = Some oid"
  then have cr: "createComplaint st0 b oid now0 = (st, Success code c)"
    and nh: "statusHistory_in b = None" by simp_all
  have f: "find (\<lambda>c. cid c = oid) st = Some c" using cr by (rule created_found)
  have l: "length (statusHistory c) = 1" using cr nh by (rule created_history)
  from a have c: "castId idParam = Some oid" by simp
  show "\<exists>c'. find (\<lambda>c. cid c = oid) (updateAll castId st idParam calls) = Some c' \<and>
         length (statusHistory c') = 1 + statusChanges castId st idParam calls"
    using updateAll_history [where castId = castId and idParam = idParam and oid = oid
        and st = st and c = c and calls = calls, OF c f] by (simp add: l)
qed

lemma history_tracks_changes_example:
  "fst (updateStatus castObjectId [leakDoc idA 1] idA
          \<lparr>status_upd = Some ''Resolved'', comment_upd = None\<rparr> 2) = [leakResolved []] \<and>
   statusHistory (leakResolved []) =
     statusHistory (leakDoc idA 1) @ [\<lparr>hstatus = ''Resolved'', htime = 2\<rparr>] \<and>
   createComplaint [] leakReq idA 1 = ([leakDoc idA 1], Success 201 (leakDoc idA 1)) \<and>
   updateAll castObjectId [leakDoc idA 1] idA scenarioCalls = [leakResolved [''checked'']] \<and>
   statusChanges castObjectId [leakDoc idA 1] idA scenarioCalls = 1 \<and>
   length (statusHistory (leakResolved [''checked''])) =
     1 + statusChanges castObjectId [leakDoc idA 1] idA scenarioCalls"
proof -
  have h1: "reachable castObjectId [leakDoc idA 1] \<and> castObjectId idA = Some idA \<and>
      find (\<lambda>c. cid c = idA) [leakDoc idA 1] = Some (leakDoc idA 1)"
    by (simp add: reachable_leak cast_idA)
  have h3: "createComplaint [] leakReq idA 1 = ([leakDoc idA 1], Success 201 (leakDoc idA 1)) \<and>
      statusHistory_in leakReq = None \<and> castObjectId idA = Some idA"
    using create_leak [of idA 1] leakReq_no_history cast_idA by blast
  from history_tracks_changes [where castId = castObjectId and st = "[leakDoc idA 1]"
      and idParam = idA and oid = idA and c = "leakDoc idA 1" and now = 2
      and u = "\<lparr>status_upd = Some ''Resolved'', comment_upd = None\<rparr>",
      THEN conjunct1, rule_format, OF h1]
  have a: "statusHistory (leakResolved []) =
     statusHistory (leakDoc idA 1) @ [\<lparr>hstatus = ''Resolved'', htime = 2\<rparr>]"
    by (simp add: step_resolve statusEnum_def leakDoc_def leakResolved_def)
  from history_tracks_changes [where castId = castObjectId and st = "[leakDoc idA 1]"
      and idParam = idA and oid = idA and c = "leakDoc idA 1" and ?st0.0 = "[]" and b = leakReq
      and ?now0.0 = 1 and code = 201 and calls = scenarioCalls,
      THEN conjunct2, THEN conjunct2, rule_format, OF h3]
  have b: "length (statusHistory (leakResolved [''checked''])) =
     1 + statusChanges castObjectId [leakDoc idA 1] idA scenarioCalls"
    by (simp add: scenario_run leakResolved_def)
  show ?thesis
    using a b by (simp add: step_resolve create_leak scenario_run scenario_changes)
qed

text \<open>C1: an UpdateStatus call appends a history entry if and only if it supplies a
  status different from the current one, so that the length of \<open>statusHistory\<close> is 1 plus
  the number of calls that changed the status.  The code departs from this for a
  complaint whose Create body carried a \<open>statusHistory\<close> array: the constructor takes the
  array, the entry of lines 94-97 is pushed after it and is not the first, and after one
  status change the history has three entries where the claim counts two.\<close>

theorem history_length_with_sent_history:
  "createComplaint []
      (leakReq\<lparr>statusHistory_in := Some [\<lparr>hstatus_in = ''Pending'', htime_in = 0\<rparr>]\<rparr>) idA 1
     = ([leakTwice ''Pending'' []], Success 201 (leakTwice ''Pending'' [])) \<and>
   updateAll castObjectId [leakTwice ''Pending'' []] idA
      [(\<lparr>status_upd = Some ''Resolved'', comment_upd = None\<rparr>, 2)]
     = [leakTwice ''Resolved'' [\<lparr>hstatus = ''Resolved'', htime = 2\<rparr>]] \<and>
   statusChanges castObjectId [leakTwice ''Pending'' []] idA
      [(\<lparr>status_upd = Some ''Resolved'', comment_upd = None\<rparr>, 2)] = 1 \<and>
   length (statusHistory (leakTwice ''Resolved'' [\<lparr>hstatus = ''Resolved'', htime = 2\<rparr>])) = 3 \<and>
   length (statusHistory (leakTwice ''Resolved'' [\<lparr>hstatus = ''Resolved'', htime = 2\<rparr>])) \<noteq>
     1 + statusChanges castObjectId [leakTwice ''Pending'' []] idA
           [(\<lparr>status_upd = Some ''Resolved'', comment_upd = None\<rparr>, 2)]"
proof -
  have c: "createComplaint []
      (leakReq\<lparr>statusHistory_in := Some [\<lparr>hstatus_in = ''Pending'', htime_in = 0\<rparr>]\<rparr>) idA 1
     = ([leakTwice ''Pending'' []], Success 201 (leakTwice ''Pending'' []))"
    by (simp add: createComplaint_eq pushInitialStatus_def newComplaint_def newStatusEntry_def
        leakReq_def leakTwice_def validate_def statusEnum_def duplicateKey_def castFailed_def
        validDate_def)
  have s: "setStatus \<lparr>status_upd = Some ''Resolved'', comment_upd = None\<rparr> 2
      (pushComment \<lparr>status_upd = Some ''Resolved'', comment_upd = None\<rparr> (leakTwice ''Pending'' []))
      = leakTwice ''Resolved'' [\<lparr>hstatus = ''Resolved'', htime = 2\<rparr>]"
    by (simp add: setStatus_def pushComment_def leakTwice_def)
  have v: "validate (leakTwice ''Resolved'' [\<lparr>hstatus = ''Resolved'', htime = 2\<rparr>])"
    by (simp add: validate_def leakTwice_def statusEnum_def)
  have i: "cid (leakTwice ''Pending'' []) = idA" by (simp add: leakTwice_def)
  have u: "updateStatus castObjectId [leakTwice ''Pending'' []] idA
      \<lparr>status_upd = Some ''Resolved'', comment_upd = None\<rparr> 2
     = ([leakTwice ''Resolved'' [\<lparr>hstatus = ''Resolved'', htime = 2\<rparr>]],
        Success 200 (leakTwice ''Resolved'' [\<lparr>hstatus = ''Resolved'', htime = 2\<rparr>]))"
    using update_single [where c = "leakTwice ''Pending'' []" and now = 2
        and u = "\<lparr>status_upd = Some ''Resolved'', comment_upd = None\<rparr>"] s v i
    by simp
  have n: "statusChanges castObjectId [leakTwice ''Pending'' []] idA
      [(\<lparr>status_upd = Some ''Resolved'', comment_upd = None\<rparr>, 2)] = 1"
    by (simp add: u currentStatus_single i) (simp add: currentStatus_def findById_def cast_idA leakTwice_def)
  show ?thesis
    using c u n by (simp add: leakTwice_def)
qed

text \<open>C6, as amended: UpdateStatus fails with 404 whenever the id can be cast and no
  stored complaint has it; when the complaint exists and the supplied status is a
  non-empty string outside the enumeration it fails with 400 (validation); and on a
  reachable collection, when the complaint exists and the status is absent, empty or of
  the enumeration, it answers 200 with the updated complaint, which is the one stored
  under the id afterwards.  (An id that cannot be cast gets 400, not 404.)\<close>

theorem updateStatus_outcomes:
  "(castId idParam = Some oid \<and> find (\<lambda>c. cid c = oid) st = None \<longrightarrow>
      updateStatus castId st idParam u now = (st, Failure 404 (Text ''Complaint not found''))) \<and>
   (castId idParam = Some oid \<and> find (\<lambda>c. cid c = oid) st = Some c \<and>
    status_upd u = Some s \<and> s \<noteq> [] \<and> s \<notin> set statusEnum \<longrightarrow>
      updateStatus castId st idParam u now = (st, Failure 400 (ErrorMessage ValidationError))) \<and>
   (reachable castId st \<and> castId idParam = Some oid \<and> find (\<lambda>c. cid c = oid) st = Some c \<and>
    (case status_upd u of None \<Rightarrow> True | Some s \<Rightarrow> s = [] \<or> s \<in> set statusEnum) \<longrightarrow>
      updateStatus castId st idParam u now =
        (updateOne st (setStatus u now (pushComment u c)),
         Success 200 (setStatus u now (pushComment u c))) \<and>
      find (\<lambda>c. cid c = oid) (updateOne st (setStatus u now (pushComment u c)))
        = Some (setStatus u now (pushComment u c)))"
proof (intro conjI impI)
  assume "castId idParam = Some oid \<and> find (\<lambda>c. cid c = oid) st = None"
  then show "updateStatus castId st idParam u now = (st, Failure 404 (Text ''Complaint not found''))"
    by (simp add: updateStatus_not_found)
next
  assume a: "castId idParam = Some oid \<and> find (\<lambda>c. cid c = oid) st = Some c \<and>
    status_upd u = Some s \<and> s \<noteq> [] \<and> s \<notin> set statusEnum"
  then have "\<not> validate (setStatus u now (pushComment u c))"
    by (simp add: invalid_setStatus)
  then show "updateStatus castId st idParam u now = (st, Failure 400 (ErrorMessage ValidationError))"
    using a by (simp add: updateStatus_found)
next
  assume a: "reachable castId st \<and> castId idParam = Some oid \<and> find (\<lambda>c. cid c = oid) st = Some c \<and>
    (case status_upd u of None \<Rightarrow> True | Some s \<Rightarrow> s = [] \<or> s \<in> set statusEnum)"
  then have f: "find (\<lambda>c. cid c = oid) st = Some c" by simp
  from a have "reachable castId st" by simp
  then have "list_all validate st" by (rule reachable_valid)
  moreover have "c \<in> set st" using f by (rule find_Some_mem)
  ultimately have "validate c" by (simp add: list_all_iff)
  then have v: "validate (setStatus u now (pushComment u c))"
    using a by (simp add: validate_setStatus)
  show "updateStatus castId st idParam u now =
        (updateOne st (setStatus u now (pushComment u c)),
         Success 200 (setStatus u now (pushComment u c)))"
    using a v by (simp add: updateStatus_found)
  have o: "cid (setStatus u now (pushComment u c)) = oid"
    using find_Some_cid [OF f] by simp
  show "find (\<lambda>c. cid c = oid) (updateOne st (setStatus u now (pushComment u c)))
        = Some (setStatus u now (pushComment u c))"
    using find_updateOne [of "setStatus u now (pushComment u c)" st c] f o by simp
qed

theorem updateStatus_outcomes_witness:
  "updateStatus castObjectId [leakDoc idA 1] idB \<lparr>status_upd = Some ''Resolved'', comment_upd = None\<rparr> 2
     = ([leakDoc idA 1], Failure 404 (Text ''Complaint not found'')) \<and>
   updateStatus castObjectId [leakDoc idA 1] idA \<lparr>status_upd = Some ''Closed'', comment_upd = None\<rparr> 2
     = ([leakDoc idA 1], Failure 400 (ErrorMessage ValidationError)) \<and>
   updateStatus castObjectId [leakDoc idA 1] idA
       \<lparr>status_upd = Some ''Resolved'', comment_upd = Some ''checked''\<rparr> 2
     = ([(leakDoc idA 1)\<lparr>status := ''Resolved'', comments := [''checked''],
           statusHistory := [\<lparr>hstatus = ''Pending'', htime = 1\<rparr>, \<lparr>hstatus = ''Resolved'', htime = 2\<rparr>]\<rparr>],
        Success 200 ((leakDoc idA 1)\<lparr>status := ''Resolved'', comments := [''checked''],
           statusHistory := [\<lparr>hstatus = ''Pending'', htime = 1\<rparr>, \<lparr>hstatus = ''Resolved'', htime = 2\<rparr>]\<rparr>))"
proof -
  have h1: "castObjectId idB = Some idB \<and> find (\<lambda>c. cid c = idB) [leakDoc idA 1] = None"
    using idA_neq_idB by (simp add: cast_idB leakDoc_def)
  have h2: "castObjectId idA = Some idA \<and>
      find (\<lambda>c. cid c = idA) [leakDoc idA 1] = Some (leakDoc idA 1) \<and>
      status_upd \<lparr>status_upd = Some ''Closed'', comment_upd = None\<rparr> = Some ''Closed'' \<and>
      ''Closed'' \<noteq> [] \<and> ''Closed'' \<notin> set statusEnum"
    by (simp add: cast_idA find_leak statusEnum_def)
  have h3: "reachable castObjectId [leakDoc idA 1] \<and> castObjectId idA = Some idA \<and>
      find (\<lambda>c. cid c = idA) [leakDoc idA 1] = Some (leakDoc idA 1) \<and>
      (case status_upd \<lparr>status_upd = Some ''Resolved'', comment_upd = Some ''checked''\<rparr> of
         None \<Rightarrow> True | Some s \<Rightarrow> s = [] \<or> s \<in> set statusEnum)"
    by (simp add: cast_idA find_leak statusEnum_def reachable_leak)
  note t = updateStatus_outcomes [where castId = castObjectId and st = "[leakDoc idA 1]"
      and idParam = idB and oid = idB and now = 2
      and u = "\<lparr>status_upd = Some ''Resolved'', comment_upd = None\<rparr>",
      THEN conjunct1, rule_format, OF h1]
    updateStatus_outcomes [where castId = castObjectId and st = "[leakDoc idA 1]"
      and idParam = idA and oid = idA and now = 2 and c = "leakDoc idA 1" and s = "''Closed''"
      and u = "\<lparr>status_upd = Some ''Closed'', comment_upd = None\<rparr>",
      THEN conjunct2, THEN conjunct1, rule_format, OF h2]
    updateStatus_outcomes [where castId = castObjectId and st = "[leakDoc idA 1]"
      and idParam = idA and oid = idA and now = 2 and c = "leakDoc idA 1"
      and u = "\<lparr>status_upd = Some ''Resolved'', comment_upd = Some ''checked''\<rparr>",
      THEN conjunct2, THEN conjunct2, rule_format, OF h3, THEN conjunct1]
  show ?thesis using t by (simp add: setStatus_def pushComment_def leakDoc_def)
qed

text \<open>C6 as written fails on an id that cannot be cast: no complaint with that id exists,
  and the answer is 400, not 404.\<close>

theorem updateStatus_malformed_not_404_counterexample:
  "find (\<lambda>c. cid c = ''T1'') [] = None \<and>
   updateStatus castObjectId [] ''T1'' \<lparr>status_upd = None, comment_upd = Some ''checked''\<rparr> 3
     = ([], Failure 400 (ErrorMessage CastError))"
  by (simp add: updateStatus_cast_error castObjectId_def)

text \<open>C7: every operation is atomic with respect to failure: a Create or an UpdateStatus
  that answers with a failure leaves the collection exactly as it was.  In particular an
  UpdateStatus with a comment and a non-empty status outside the enumeration fails with
  400 and the collection, the complaint's comments included, is unchanged.\<close>

theorem failure_atomic:
  "(isFailure (snd (createComplaint st b oid now)) \<longrightarrow>
      fst (createComplaint st b oid now) = st) \<and>
   (isFailure (snd (updateStatus castId st idParam u now)) \<longrightarrow>
      fst (updateStatus castId st idParam u now) = st) \<and>
   (castId idParam = Some oid \<and> find (\<lambda>c. cid c = oid) st = Some c \<and>
    truthy (comment_upd u) \<and> status_upd u = Some s \<and> s \<noteq> [] \<and> s \<notin> set statusEnum \<longrightarrow>
      updateStatus castId st idParam u now = (st, Failure 400 (ErrorMessage ValidationError)))"
proof (intro conjI impI)
  assume "isFailure (snd (createComplaint st b oid now))"
  then show "fst (createComplaint st b oid now) = st" by (rule createComplaint_failure_keeps)
next
  assume "isFailure (snd (updateStatus castId st idParam u now))"
  then show "fst (updateStatus castId st idParam u now) = st" by (rule updateStatus_failure_keeps)
next
  assume a: "castId idParam = Some oid \<and> find (\<lambda>c. cid c = oid) st = Some c \<and>
    truthy (comment_upd u) \<and> status_upd u = Some s \<and> s \<noteq> [] \<and> s \<notin> set statusEnum"
  then have "\<not> validate (setStatus u now (pushComment u c))"
    by (simp add: invalid_setStatus)
  then show "updateStatus castId st idParam u now = (st, Failure 400 (ErrorMessage ValidationError))"
    using a by (simp add: updateStatus_found)
qed

theorem failure_atomic_witness:
  "isFailure (snd (createComplaint [] (leakReq\<lparr>category_in := None\<rparr>) idA 1)) \<and>
   fst (createComplaint [] (leakReq\<lparr>category_in := None\<rparr>) idA 1) = [] \<and>
   isFailure (snd (updateStatus castObjectId [leakDoc idA 1] ''T1''
      \<lparr>status_upd = Some ''Resolved'', comment_upd = Some ''checked''\<rparr> 2)) \<and>
   fst (updateStatus castObjectId [leakDoc idA 1] ''T1''
      \<lparr>status_upd = Some ''Resolved'', comment_upd = Some ''checked''\<rparr> 2) = [leakDoc idA 1] \<and>
   updateStatus castObjectId [leakDoc idA 1] idA
      \<lparr>status_upd = Some ''Closed'', comment_upd = Some ''checked''\<rparr> 2
     = ([leakDoc idA 1], Failure 400 (ErrorMessage ValidationError)) \<and>
   comments (leakDoc idA 1) = []"
proof -
  have c: "isFailure (snd (createComplaint [] (leakReq\<lparr>category_in := None\<rparr>) idA 1))"
    by (simp add: createComplaint_eq validate_def pushInitialStatus_def newComplaint_def leakReq_def)
  have u: "isFailure (snd (updateStatus castObjectId [leakDoc idA 1] ''T1''
      \<lparr>status_upd = Some ''Resolved'', comment_upd = Some ''checked''\<rparr> 2))"
    by (simp add: updateStatus_cast_error castObjectId_def)
  have h: "castObjectId idA = Some idA \<and>
      find (\<lambda>c. cid c = idA) [leakDoc idA 1] = Some (leakDoc idA 1) \<and>
      truthy (comment_upd \<lparr>status_upd = Some ''Closed'', comment_upd = Some ''checked''\<rparr>) \<and>
      status_upd \<lparr>status_upd = Some ''Closed'', comment_upd = Some ''checked''\<rparr> = Some ''Closed'' \<and>
      ''Closed'' \<noteq> [] \<and> ''Closed'' \<notin> set statusEnum"
    by (simp add: cast_idA find_leak statusEnum_def)
  note t = failure_atomic [where st = "[]" and b = "leakReq\<lparr>category_in := None\<rparr>" and oid = idA
      and now = 1, THEN conjunct1, rule_format, OF c]
    failure_atomic [where castId = castObjectId and st = "[leakDoc idA 1]" and idParam = "''T1''"
      and u = "\<lparr>status_upd = Some ''Resolved'', comment_upd = Some ''checked''\<rparr>" and now = 2,
      THEN conjunct2, THEN conjunct1, rule_format, OF u]
    failure_atomic [where castId = castObjectId and st = "[leakDoc idA 1]" and idParam = idA
      and oid = idA and c = "leakDoc idA 1" and s = "''Closed''"
      and u = "\<lparr>status_upd = Some ''Closed'', comment_upd = Some ''checked''\<rparr>" and now = 2,
      THEN conjunct2, THEN conjunct2, rule_format, OF h]
  show ?thesis using c u t by (simp add: leakDoc_def)
qed

text \<open>C8, as amended: in every reachable collection every complaint's status is one of
  the five values the schema enumerates, \<open>Pending\<close>, \<open>In Review\<close>, \<open>Resolved\<close>, \<open>Escalated\<close>
  and \<open>Unnecessary\<close>.  A Create whose body carries any other status is rejected with 400; an
  UpdateStatus that supplies any other status that is not empty is rejected and changes
  nothing; an UpdateStatus that supplies the empty status is not rejected: on a stored
  complaint it answers 200 and leaves the status as it was.  Create never touches the
  complaints already stored, so a stored status changes only through UpdateStatus.\<close>

theorem status_enumerated:
  "(reachable castId st \<longrightarrow> list_all (\<lambda>c. status c \<in> set statusEnum) st) \<and>
   (status_in b = Some s \<and> s \<notin> set statusEnum \<longrightarrow>
      createComplaint st b oid now = (st, Failure 400 (ErrorMessage ValidationError))) \<and>
   (status_upd u = Some s \<and> s \<noteq> [] \<and> s \<notin> set statusEnum \<longrightarrow>
      fst (updateStatus castId st idParam u now) = st \<and>
      isFailure (snd (updateStatus castId st idParam u now))) \<and>
   (reachable castId st \<and> castId idParam = Some oid \<and>
    find (\<lambda>c. cid c = oid) st = Some c \<and> status_upd u = Some [] \<longrightarrow>
      updateStatus castId st idParam u now =
        (updateOne st (pushComment u c), Success 200 (pushComment u c)) \<and>
      status (pushComment u c) = status c) \<and>
   take (length st) (fst (createComplaint st b oid now)) = st"
proof (intro conjI impI)
  assume "reachable castId st"
  then show "list_all (\<lambda>c. status c \<in> set statusEnum) st"
    by (intro valid_status reachable_valid)
next
  assume "status_in b = Some s \<and> s \<notin> set statusEnum"
  then have "\<not> validate (pushInitialStatus (newComplaint oid now b))"
    by (simp add: invalid_new_status)
  then show "createComplaint st b oid now = (st, Failure 400 (ErrorMessage ValidationError))"
    by (simp add: createComplaint_eq)
next
  assume a: "status_upd u = Some s \<and> s \<noteq> [] \<and> s \<notin> set statusEnum"
  show f: "isFailure (snd (updateStatus castId st idParam u now))"
  proof (cases "castId idParam")
    case None
    then show ?thesis by (simp add: updateStatus_cast_error)
  next
    case (Some oid')
    show ?thesis
    proof (cases "find (\<lambda>c. cid c = oid') st")
      case None
      with Some show ?thesis by (simp add: updateStatus_not_found)
    next
      case (Some c)
      with \<open>castId idParam = Some oid'\<close> a show ?thesis
        by (simp add: updateStatus_found invalid_setStatus)
    qed
  qed
  show "fst (updateStatus castId st idParam u now) = st"
    using f by (rule updateStatus_failure_keeps)
next
  assume a: "reachable castId st \<and> castId idParam = Some oid \<and>
    find (\<lambda>c. cid c = oid) st = Some c \<and> status_upd u = Some []"
  then have f: "find (\<lambda>c. cid c = oid) st = Some c" by simp
  from a have "reachable castId st" by simp
  then have "list_all validate st" by (rule reachable_valid)
  moreover have "c \<in> set st" using f by (rule find_Some_mem)
  ultimately have "validate c" by (simp add: list_all_iff)
  moreover have same: "setStatus u now (pushComment u c) = pushComment u c"
    using a by (simp add: setStatus_def)
  ultimately show "updateStatus castId st idParam u now =
        (updateOne st (pushComment u c), Success 200 (pushComment u c))"
    using a by (simp add: updateStatus_found [where oid = oid and c = c])
  show "status (pushComment u c) = status c" by simp
next
  show "take (length st) (fst (createComplaint st b oid now)) = st"
    by (simp add: createComplaint_eq)
qed

theorem status_enumerated_witness:
  "reachable castObjectId [leakDoc idA 1] \<and>
   list_all (\<lambda>c. status c \<in> set statusEnum) [leakDoc idA 1] \<and>
   createComplaint [leakDoc idA 1] (leakReq\<lparr>trackId_in := Some ''T2'', status_in := Some ''Closed''\<rparr>) idB 2
     = ([leakDoc idA 1], Failure 400 (ErrorMessage ValidationError)) \<and>
   fst (updateStatus castObjectId [leakDoc idA 1] idA
      \<lparr>status_upd = Some ''Closed'', comment_upd = None\<rparr> 2) = [leakDoc idA 1] \<and>
   isFailure (snd (updateStatus castObjectId [leakDoc idA 1] idA
      \<lparr>status_upd = Some ''Closed'', comment_upd = None\<rparr> 2)) \<and>
   updateStatus castObjectId [leakDoc idA 1] idA \<lparr>status_upd = Some [], comment_upd = None\<rparr> 2
     = ([leakDoc idA 1], Success 200 (leakDoc idA 1))"
proof -
  have r: "reachable castObjectId [leakDoc idA 1]" by (rule reachable_leak)
  have h1: "status_in (leakReq\<lparr>trackId_in := Some ''T2'', status_in := Some ''Closed''\<rparr>) = Some ''Closed'' \<and>
      ''Closed'' \<notin> set statusEnum"
    by (simp add: statusEnum_def)
  have h2: "status_upd \<lparr>status_upd = Some ''Closed'', comment_upd = None\<rparr> = Some ''Closed'' \<and>
      ''Closed'' \<noteq> [] \<and> ''Closed'' \<notin> set statusEnum"
    by (simp add: statusEnum_def)
  have h3: "reachable castObjectId [leakDoc idA 1] \<and> castObjectId idA = Some idA \<and>
      find (\<lambda>c. cid c = idA) [leakDoc idA 1] = Some (leakDoc idA 1) \<and>
      status_upd \<lparr>status_upd = Some [], comment_upd = None\<rparr> = Some []"
    by (simp add: reachable_leak cast_idA)
  note t = status_enumerated [where castId = castObjectId and st = "[leakDoc idA 1]",
      THEN conjunct1, rule_format, OF r]
    status_enumerated [where st = "[leakDoc idA 1]" and s = "''Closed''" and oid = idB and now = 2
      and b = "leakReq\<lparr>trackId_in := Some ''T2'', status_in := Some ''Closed''\<rparr>",
      THEN conjunct2, THEN conjunct1, rule_format, OF h1]
    status_enumerated [where castId = castObjectId and st = "[leakDoc idA 1]" and s = "''Closed''"
      and idParam = idA and now = 2
      and u = "\<lparr>status_upd = Some ''Closed'', comment_upd = None\<rparr>",
      THEN conjunct2, THEN conjunct2, THEN conjunct1, rule_format, OF h2]
    status_enumerated [where castId = castObjectId and st = "[leakDoc idA 1]"
      and idParam = idA and oid = idA and c = "leakDoc idA 1" and now = 2
      and u = "\<lparr>status_upd = Some [], comment_upd = None\<rparr>",
      THEN conjunct2, THEN conjunct2, THEN conjunct2, THEN conjunct1, rule_format, OF h3]
  show ?thesis using r t by (simp add: pushComment_def)
qed

text \<open>C8 as written fails twice.  An UpdateStatus with the empty status, which is none of
  the five values, is not rejected but answered 200.  And the five values of the claim are
  not those of the schema: \<open>In Review\<close>, which the claim's set does not have, is the status
  of a stored complaint after an accepted update, while \<open>InReview\<close>, which the claim's set
  has, is rejected.\<close>

theorem status_values_counterexample:
  "[] \<notin> set specStatuses \<and>
   updateStatus castObjectId [leakDoc idA 1] idA \<lparr>status_upd = Some [], comment_upd = None\<rparr> 2
     = ([leakDoc idA 1], Success 200 (leakDoc idA 1)) \<and>
   updateStatus castObjectId [leakDoc idA 1] idA
       \<lparr>status_upd = Some ''In Review'', comment_upd = None\<rparr> 2
     = ([leakReviewed], Success 200 leakReviewed) \<and>
   reachable castObjectId [leakReviewed] \<and>
   status leakReviewed \<notin> set specStatuses \<and>
   ''InReview'' \<in> set specStatuses \<and>
   createComplaint [] (leakReq\<lparr>status_in := Some ''InReview''\<rparr>) idA 1
     = ([], Failure 400 (ErrorMessage ValidationError))"
proof -
  have e: "updateStatus castObjectId [leakDoc idA 1] idA
      \<lparr>status_upd = Some [], comment_upd = None\<rparr> 2
     = ([leakDoc idA 1], Success 200 (leakDoc idA 1))"
    using update_single [where c = "leakDoc idA 1" and now = 2
        and u = "\<lparr>status_upd = Some [], comment_upd = None\<rparr>"]
    by (simp add: setStatus_def pushComment_def validate_leakDoc)
  have s: "setStatus \<lparr>status_upd = Some ''In Review'', comment_upd = None\<rparr> 2
      (pushComment \<lparr>status_upd = Some ''In Review'', comment_upd = None\<rparr> (leakDoc idA 1))
      = leakReviewed"
    by (simp add: setStatus_def pushComment_def leakDoc_def leakReviewed_def)
  have v: "validate leakReviewed"
    by (simp add: validate_def leakReviewed_def statusEnum_def)
  have u: "updateStatus castObjectId [leakDoc idA 1] idA
      \<lparr>status_upd = Some ''In Review'', comment_upd = None\<rparr> 2
     = ([leakReviewed], Success 200 leakReviewed)"
    using update_single [where c = "leakDoc idA 1" and now = 2
        and u = "\<lparr>status_upd = Some ''In Review'', comment_upd = None\<rparr>"] s v
    by simp
  have r: "reachable castObjectId [leakReviewed]"
    using reachable.update [OF reachable_leak, of castObjectId idA 1 idA
        "\<lparr>status_upd = Some ''In Review'', comment_upd = None\<rparr>" 2]
    by (simp add: u)
  have c: "createComplaint [] (leakReq\<lparr>status_in := Some ''InReview''\<rparr>) idA 1
     = ([], Failure 400 (ErrorMessage ValidationError))"
    by (simp add: createComplaint_eq validate_def pushInitialStatus_def newComplaint_def
        leakReq_def statusEnum_def)
  show ?thesis
    using e u r c by (simp add: specStatuses_def leakReviewed_def)
qed

text \<open>C9: when the id parameter of an UpdateStatus request cannot be cast to an object
  id, the request fails with HTTP 400 (the cast error is caught by the handler), whereas
  an id that can be cast and names no stored complaint gets the 404 "Complaint not
  found".\<close>

theorem updateStatus_malformed_id:
  "(castId idParam = None \<longrightarrow>
      updateStatus castId st idParam b now = (st, Failure 400 (ErrorMessage CastError))) \<and>
   (castId idParam = Some oid \<and> find (\<lambda>c. cid c = oid) st = None \<longrightarrow>
      updateStatus castId st idParam b now = (st, Failure 404 (Text ''Complaint not found'')))"
  by (simp add: updateStatus_def findById_def)

theorem updateStatus_malformed_id_witness:
  "castObjectId ''not-an-id'' = None \<and>
   updateStatus castObjectId [] ''not-an-id'' \<lparr>status_upd = Some ''Resolved'', comment_upd = None\<rparr> 7
     = ([], Failure 400 (ErrorMessage CastError)) \<and>
   castObjectId ''0123456789abcdef01234567'' = Some ''0123456789abcdef01234567'' \<and>
   updateStatus castObjectId [] ''0123456789abcdef01234567''
       \<lparr>status_upd = Some ''Resolved'', comment_upd = None\<rparr> 7
     = ([], Failure 404 (Text ''Complaint not found''))"
  using updateStatus_malformed_id [of castObjectId "''not-an-id''" "[]"
      "\<lparr>status_upd = Some ''Resolved'', comment_upd = None\<rparr>" 7]
    updateStatus_malformed_id [of castObjectId "''0123456789abcdef01234567''" "[]"
      "\<lparr>status_upd = Some ''Resolved'', comment_upd = None\<rparr>" 7 "''0123456789abcdef01234567''"]
  by (simp add: castObjectId_def hexDigit_def lowerHex_def)

subsection \<open>Login\<close>

text \<open>C5, as amended: Login answers 400 when the email or the password is missing or is
  the empty string as submitted (the test comes before any trimming).  Otherwise both
  are trimmed; when the trimmed email and the trimmed password equal the configured admin
  credentials the answer is 200 with a signed token and the trimmed email, and in every
  other case (a field of white space only included) the answer is 401, the same whichever
  field differs.\<close>

theorem login_outcomes:
  "(\<not> truthy (email_in b) \<or> \<not> truthy (password_in b) \<longrightarrow>
      adminLogin e b = Failure 400 (Text ''Email and password are required'')) \<and>
   (email_in b = Some email \<and> password_in b = Some password \<and> email \<noteq> [] \<and> password \<noteq> [] \<and>
    trim email = orElse (ADMIN_EMAIL e) ''prasad@gmail.com'' \<and>
    trim password = orElse (ADMIN_PASSWORD e) ''prasad123'' \<longrightarrow>
      (\<exists>tok. adminLogin e b =
         Success 200 \<lparr>loginMessage = ''Login successful'', loginToken = tok,
                      loginEmail = trim email\<rparr>)) \<and>
   (email_in b = Some email \<and> password_in b = Some password \<and> email \<noteq> [] \<and> password \<noteq> [] \<and>
    (trim email \<noteq> orElse (ADMIN_EMAIL e) ''prasad@gmail.com'' \<or>
     trim password \<noteq> orElse (ADMIN_PASSWORD e) ''prasad123'') \<longrightarrow>
      adminLogin e b = Failure 401 (Text ''Invalid credentials''))"
  by (cases "email_in b"; cases "password_in b") (auto simp: adminLogin_def Let_def)

theorem login_outcomes_witness:
  "adminLogin \<lparr>ADMIN_EMAIL = None, ADMIN_PASSWORD = None, JWT_SECRET = None\<rparr>
      \<lparr>email_in = Some [], password_in = Some ''prasad123''\<rparr>
     = Failure 400 (Text ''Email and password are required'') \<and>
   (\<exists>tok. adminLogin \<lparr>ADMIN_EMAIL = Some ''admin@x.com'', ADMIN_PASSWORD = Some ''pw'', JWT_SECRET = None\<rparr>
      \<lparr>email_in = Some '' admin@x.com '', password_in = Some '' pw ''\<rparr>
     = Success 200 \<lparr>loginMessage = ''Login successful'', loginToken = tok,
                      loginEmail = ''admin@x.com''\<rparr>) \<and>
   adminLogin \<lparr>ADMIN_EMAIL = Some ''admin@x.com'', ADMIN_PASSWORD = Some ''pw'', JWT_SECRET = None\<rparr>
      \<lparr>email_in = Some '' admin@x.com '', password_in = Some '' wrong ''\<rparr>
     = Failure 401 (Text ''Invalid credentials'')"
  using login_outcomes [where b = "\<lparr>email_in = Some [], password_in = Some ''prasad123''\<rparr>"
      and e = "\<lparr>ADMIN_EMAIL = None, ADMIN_PASSWORD = None, JWT_SECRET = None\<rparr>"]
    login_outcomes [where b = "\<lparr>email_in = Some '' admin@x.com '', password_in = Some '' pw ''\<rparr>"
      and email = "'' admin@x.com ''" and password = "'' pw ''"
      and e = "\<lparr>ADMIN_EMAIL = Some ''admin@x.com'', ADMIN_PASSWORD = Some ''pw'', JWT_SECRET = None\<rparr>"]
    login_outcomes [where b = "\<lparr>email_in = Some '' admin@x.com '', password_in = Some '' wrong ''\<rparr>"
      and email = "'' admin@x.com ''" and password = "'' wrong ''"
      and e = "\<lparr>ADMIN_EMAIL = Some ''admin@x.com'', ADMIN_PASSWORD = Some ''pw'', JWT_SECRET = None\<rparr>"]
  by (simp add: trim_def isWhiteSpace_def)

text \<open>C5 as written fails on an email of white space only: trimmed it is empty,
  and the answer is 401, not 400.\<close>

theorem login_blank_email_counterexample:
  "trim ''  '' = [] \<and>
   adminLogin \<lparr>ADMIN_EMAIL = None, ADMIN_PASSWORD = None, JWT_SECRET = None\<rparr>
      \<lparr>email_in = Some ''  '', password_in = Some ''prasad123''\<rparr>
     = Failure 401 (Text ''Invalid credentials'')"
  by (simp add: adminLogin_def trim_def isWhiteSpace_def)

text \<open>C10: on every successful Login the token's payload carries the email exactly as
  submitted, and the response's \<open>email\<close> field carries the trimmed email; so whenever the
  submitted email has surrounding white space (it differs from its trimmed form) the two
  differ.\<close>

theorem login_token_email:
  "adminLogin e b = Success code d \<longrightarrow>
     (\<exists>email. email_in b = Some email \<and> code = 200 \<and>
        tokenEmail (loginToken d) = email \<and> loginEmail d = trim email \<and>
        (email \<noteq> trim email \<longrightarrow> tokenEmail (loginToken d) \<noteq> loginEmail d))"
  by (auto simp: adminLogin_def Let_def split: option.splits if_splits)

theorem login_token_email_witness:
  "adminLogin \<lparr>ADMIN_EMAIL = None, ADMIN_PASSWORD = None, JWT_SECRET = None\<rparr>
      \<lparr>email_in = Some '' prasad@gmail.com '', password_in = Some ''prasad123''\<rparr>
     = Success 200
         \<lparr>loginMessage = ''Login successful'',
          loginToken = \<lparr>tokenEmail = '' prasad@gmail.com '', tokenRole = ''admin'',
                        tokenSecret = ''prasad123'', tokenExpiresIn = ''24h''\<rparr>,
          loginEmail = ''prasad@gmail.com''\<rparr> \<and>
   tokenEmail \<lparr>tokenEmail = '' prasad@gmail.com '', tokenRole = ''admin'',
                tokenSecret = ''prasad123'', tokenExpiresIn = ''24h''\<rparr> \<noteq> ''prasad@gmail.com''"
  using login_token_email [of "\<lparr>ADMIN_EMAIL = None, ADMIN_PASSWORD = None, JWT_SECRET = None\<rparr>"
      "\<lparr>email_in = Some '' prasad@gmail.com '', password_in = Some ''prasad123''\<rparr>"]
  by (simp add: adminLogin_def trim_def isWhiteSpace_def)

end
